theory Spec2Isabelle
  imports Main
begin

section \<open>Exceptions, and computations that change the world or raise\<close>

text \<open>
  Every \<^verbatim>\<open>raise\<close> of the Python sources is a value. The server only ever looks at
  \<^verbatim>\<open>str(e)\<close> of a caught exception, so an exception carries what \<^verbatim>\<open>str\<close> needs:
  \<^item> \<open>KeyError k\<close>: \<^verbatim>\<open>active_sessions[k]\<close> or \<^verbatim>\<open>del active_sessions[k]\<close> on a missing key;
  \<^item> \<open>AttributeError m\<close>: a method call on a global service that is still \<^verbatim>\<open>None\<close>;
  \<^item> \<open>JSONDecodeError m\<close>: \<^verbatim>\<open>json.loads\<close> on a text frame that is not JSON;
  \<^item> \<open>BackendError m\<close>: whatever an external backend (speech-to-text, chat completion,
    text-to-speech, the video pipeline) raises, with its message;
  \<^item> \<open>SendError m\<close>: \<^verbatim>\<open>websocket.send_json\<close> raising, with its message;
  \<^item> \<open>WebSocketDisconnect\<close>: \<^verbatim>\<open>websocket.receive\<close> on a connection the client has left.
\<close>

datatype exn =
    KeyError string
  | AttributeError string
  | JSONDecodeError string
  | BackendError string
  | SendError string
  | WebSocketDisconnect

definition quoted :: "string \<Rightarrow> string" where
  "quoted s = [CHR 0x27] @ s @ [CHR 0x27]"

fun str_exn :: "exn \<Rightarrow> string" where
  "str_exn (KeyError k) = quoted k"
| "str_exn (AttributeError m) = m"
| "str_exn (JSONDecodeError m) = m"
| "str_exn (BackendError m) = m"
| "str_exn (SendError m) = m"
| "str_exn WebSocketDisconnect = []"

definition none_has_no_attribute :: "string \<Rightarrow> exn" where
  "none_has_no_attribute attr =
     AttributeError (quoted ''NoneType'' @ '' object has no attribute '' @ quoted attr)"

type_synonym ('s, 'a) action = "'s \<Rightarrow> (exn + 'a) \<times> 's"

definition return :: "'a \<Rightarrow> ('s, 'a) action" where
  "return a s = (Inr a, s)"

definition raise :: "exn \<Rightarrow> ('s, 'a) action" where
  "raise e s = (Inl e, s)"

definition bind :: "('s, 'a) action \<Rightarrow> ('a \<Rightarrow> ('s, 'b) action) \<Rightarrow> ('s, 'b) action" where
  "bind m f s = (case m s of (Inl e, s') \<Rightarrow> (Inl e, s') | (Inr a, s') \<Rightarrow> f a s')"

definition try_except :: "('s, 'a) action \<Rightarrow> (exn \<Rightarrow> ('s, 'a) action) \<Rightarrow> ('s, 'a) action" where
  "try_except m h s = (case m s of (Inl e, s') \<Rightarrow> h e s' | (Inr a, s') \<Rightarrow> (Inr a, s'))"

definition try_finally :: "('s, 'a) action \<Rightarrow> ('s, unit) action \<Rightarrow> ('s, 'a) action" where
  "try_finally m fin s =
     (case m s of (r, s') \<Rightarrow>
        (case fin s' of (Inl e, s'') \<Rightarrow> (Inl e, s'') | (Inr _, s'') \<Rightarrow> (r, s'')))"


section \<open>Data\<close>

subsection \<open>Settings (config/settings.py)\<close>

record Settings =
  default_avatar_prompt :: string
  default_avatar_image :: string

definition default_settings :: Settings where
  "default_settings =
     \<lparr> default_avatar_prompt = ''A person speaking naturally'',
       default_avatar_image = ''examples/man.png'' \<rparr>"

subsection \<open>The file system\<close>

datatype fs_entry = File string | Directory

type_synonym filesystem = "string \<rightharpoonup> fs_entry"

definition path_exists :: "filesystem \<Rightarrow> string \<Rightarrow> bool" where
  "path_exists files p = (files p \<noteq> None)"

definition unlink :: "filesystem \<Rightarrow> string \<Rightarrow> filesystem" where
  "unlink files p = files(p := None)"


text \<open>\<^verbatim>\<open>Path(p).name\<close>: the last component of \<open>p\<close>.\<close>

definition path_name :: "string \<Rightarrow> string" where
  "path_name p = rev (takeWhile (\<lambda>c. c \<noteq> CHR ''/'') (rev p))"

subsection \<open>Conversation history, sessions, frames\<close>

record chat_message =
  role :: string
  content :: string

record session =
  conversation_history :: "chat_message list"

text \<open>
  The \<^verbatim>\<open>"websocket"\<close> entry of a session dictionary is never read by the server; the
  connection a handler writes to is the one it is passed, modelled by \<open>outbox\<close> below.
\<close>

datatype frame =
    Connection string string
  | ConfigUpdated string
  | Status string string
  | Transcription string
  | Response string
  | VideoReady string string
  | ErrorFrame string

record AvatarService =
  is_initialized :: bool

subsection \<open>The world of one connection handler\<close>

text \<open>
  The module globals (the four services and \<^verbatim>\<open>active_sessions\<close>), the file system, and the
  connection of the handler: \<open>outbox\<close> is the list of frames the client has received, in
  order, and \<open>send_attempts\<close> counts the calls of \<^verbatim>\<open>send_json\<close> made on the connection.
  The three remote services hold only a client and configuration, so only their being
  constructed is kept.
\<close>

record world =
  stt_service :: "unit option"
  llm_service :: "unit option"
  tts_service :: "unit option"
  avatar_service :: "AvatarService option"
  active_sessions :: "string \<rightharpoonup> session"
  files :: filesystem
  outbox :: "frame list"
  send_attempts :: nat

subsection \<open>The environment of one inbound message\<close>

text \<open>
  What the collaborators outside the repository do while one inbound message is handled.
  A backend answers \<open>Inl m\<close> when it raises an exception whose \<^verbatim>\<open>str\<close> is \<open>m\<close>.
  \<^item> \<open>transcriptions_create\<close>: audio bytes to transcript (OpenAI Whisper);
  \<^item> \<open>chat_completions_create\<close>: the message list to the assistant's reply;
  \<^item> \<open>speech_create\<close>: text to mp3 bytes;
  \<^item> \<open>temp_file_name\<close>: the name \<^verbatim>\<open>tempfile.NamedTemporaryFile\<close> picks;
  \<^item> \<open>pipeline_initialize\<close>: \<open>Some m\<close> when building the video pipeline raises;
  \<^item> \<open>pipeline_generate\<close>: prompt, reference image, audio path, number of clips and seed
    to the bytes of the saved and merged video;
  \<^item> \<open>timestamp\<close>: \<^verbatim>\<open>datetime.now().strftime("%Y%m%d_%H%M%S")\<close> when the video is saved;
  \<^item> \<open>send_error\<close>: \<open>send_error n = Some m\<close> when the \<open>n\<close>-th call of \<^verbatim>\<open>send_json\<close>
    on the connection (counted from 0) raises.
\<close>

record env =
  settings :: Settings
  transcriptions_create :: "string \<Rightarrow> string + string"
  chat_completions_create :: "chat_message list \<Rightarrow> string + string"
  speech_create :: "string \<Rightarrow> string + string"
  temp_file_name :: string
  pipeline_initialize :: "string option"
  pipeline_generate :: "string \<Rightarrow> string \<Rightarrow> string \<Rightarrow> int \<Rightarrow> int \<Rightarrow> string + string"
  timestamp :: string
  send_error :: "nat \<Rightarrow> string option"


section \<open>services/avatar_service.py\<close>

text \<open>\<^verbatim>\<open>x or d\<close> on an \<^verbatim>\<open>Optional[str]\<close>: \<^verbatim>\<open>None\<close> and the empty string are both falsy.\<close>

definition or_default :: "string option \<Rightarrow> string \<Rightarrow> string" where
  "or_default x d = (case x of None \<Rightarrow> d | Some s \<Rightarrow> if s = [] then d else s)"

text \<open>\<^verbatim>\<open>AvatarService.initialize\<close> / \<^verbatim>\<open>_initialize_sync\<close>.\<close>

definition initialize :: "env \<Rightarrow> AvatarService \<Rightarrow> (world, AvatarService) action" where
  "initialize e svc =
     (if is_initialized svc then return svc
      else (case pipeline_initialize e of
              Some m \<Rightarrow> raise (BackendError m)
            | None \<Rightarrow> (\<lambda>w. let svc' = svc\<lparr>is_initialized := True\<rparr>
                          in (Inr svc', w\<lparr>avatar_service := Some svc'\<rparr>))))"

text \<open>
  \<^verbatim>\<open>AvatarService._generate_sync\<close>: run the pipeline, save the video under
  \<^verbatim>\<open>output/interactive\<close> and return its path.
\<close>

definition generate_sync ::
  "env \<Rightarrow> string \<Rightarrow> string \<Rightarrow> string \<Rightarrow> int \<Rightarrow> int \<Rightarrow> (world, string) action" where
  "generate_sync e audio_path prompt reference_image num_clips seed =
     (case pipeline_generate e prompt reference_image audio_path num_clips seed of
        Inl m \<Rightarrow> raise (BackendError m)
      | Inr video \<Rightarrow>
          (\<lambda>w. let output_dir = ''output/interactive'';
                    output_path = output_dir @ ''/'' @ (''avatar_'' @ timestamp e @ ''.mp4'')
                in (Inr output_path,
                    w\<lparr>files := (files w)(output_dir \<mapsto> Directory,
                                          output_path \<mapsto> File video)\<rparr>)))"

text \<open>\<^verbatim>\<open>AvatarService.generate_avatar_video\<close>.\<close>

definition generate_avatar_video ::
  "env \<Rightarrow> AvatarService \<Rightarrow> string \<Rightarrow> string option \<Rightarrow> string option \<Rightarrow> int \<Rightarrow> int
     \<Rightarrow> (world, string) action" where
  "generate_avatar_video e svc audio_path prompt reference_image num_clips seed =
     bind (if \<not> is_initialized svc then initialize e svc else return svc) (\<lambda>_.
       let prompt' = or_default prompt (default_avatar_prompt (settings e));
           reference_image' = or_default reference_image (default_avatar_image (settings e))
       in generate_sync e audio_path prompt' reference_image' num_clips seed)"


section \<open>interactive_avatar_server.py: the plain requests\<close>

record service_flags =
  stt :: bool
  llm :: bool
  tts :: bool
  avatar :: bool

record health =
  status :: string
  services :: service_flags

text \<open>\<^verbatim>\<open>health_check\<close>.\<close>

definition health_check :: "world \<Rightarrow> health" where
  "health_check w =
     \<lparr> status = ''healthy'',
       services =
         \<lparr> stt = (stt_service w \<noteq> None),
           llm = (llm_service w \<noteq> None),
           tts = (tts_service w \<noteq> None),
           avatar = (case avatar_service w of None \<Rightarrow> False | Some svc \<Rightarrow> is_initialized svc) \<rparr> \<rparr>"






section \<open>interactive_avatar_server.py: the session registry\<close>

text \<open>\<^verbatim>\<open>del d[k]\<close>: raises \<^verbatim>\<open>KeyError\<close> when the key is missing.\<close>

definition del_item :: "(string \<rightharpoonup> 'v) \<Rightarrow> string \<Rightarrow> exn + (string \<rightharpoonup> 'v)" where
  "del_item d k = (if d k = None then Inl (KeyError k) else Inr (d(k := None)))"

text \<open>The \<^verbatim>\<open>finally\<close> block of \<^verbatim>\<open>websocket_endpoint\<close>.\<close>

definition cleanup_session :: "string \<Rightarrow> (world, unit) action" where
  "cleanup_session session_id w =
     (if active_sessions w session_id \<noteq> None
      then (case del_item (active_sessions w) session_id of
              Inl e \<Rightarrow> (Inl e, w)
            | Inr d \<Rightarrow> (Inr (), w\<lparr>active_sessions := d\<rparr>))
      else (Inr (), w))"


section \<open>services: speech-to-text, language model, text-to-speech\<close>

text \<open>
  \<^verbatim>\<open>STTService.transcribe\<close> (no language given). The temporary \<^verbatim>\<open>.wav\<close> file it writes
  for the upload is outside what the server handles and is not modelled.
\<close>

definition transcribe :: "env \<Rightarrow> string \<Rightarrow> (world, string) action" where
  "transcribe e audio_data =
     (case transcriptions_create e audio_data of
        Inl m \<Rightarrow> raise (BackendError m)
      | Inr transcript \<Rightarrow> return transcript)"

definition system_prompt :: string where
  "system_prompt =
     ''You are a friendly and helpful AI assistant appearing as a virtual avatar. '' @
     ''Keep your responses concise (2-3 sentences max) and conversational. '' @
     ''Be warm, engaging, and natural in your interactions.''"

text \<open>\<^verbatim>\<open>LLMService.generate_response\<close>.\<close>

definition generate_response :: "env \<Rightarrow> string \<Rightarrow> chat_message list \<Rightarrow> (world, string) action" where
  "generate_response e user_message history =
     (let messages = [\<lparr>role = ''system'', content = system_prompt\<rparr>];
          messages = (if history \<noteq> [] then messages @ history else messages);
          messages = messages @ [\<lparr>role = ''user'', content = user_message\<rparr>]
      in case chat_completions_create e messages of
           Inl m \<Rightarrow> raise (BackendError m)
         | Inr assistant_message \<Rightarrow> return assistant_message)"

text \<open>
  \<^verbatim>\<open>TTSService.synthesize\<close> with no output path: the temporary file is created (empty, and
  kept: \<^verbatim>\<open>delete=False\<close>) before the backend is called, and filled when it answers.
\<close>

definition synthesize :: "env \<Rightarrow> string \<Rightarrow> (world, string) action" where
  "synthesize e text w =
     (let output_path = temp_file_name e;
          w1 = w\<lparr>files := (files w)(output_path \<mapsto> File [])\<rparr>
      in case speech_create e text of
           Inl m \<Rightarrow> (Inl (BackendError m), w1)
         | Inr audio \<Rightarrow> (Inr output_path, w1\<lparr>files := (files w1)(output_path \<mapsto> File audio)\<rparr>))"


section \<open>interactive_avatar_server.py: the connection handlers\<close>

text \<open>\<^verbatim>\<open>websocket.send_json\<close> on the handler's connection.\<close>

definition send_json :: "env \<Rightarrow> frame \<Rightarrow> (world, unit) action" where
  "send_json e f w =
     (case send_error e (send_attempts w) of
        None \<Rightarrow> (Inr (), w\<lparr>outbox := outbox w @ [f], send_attempts := Suc (send_attempts w)\<rparr>)
      | Some m \<Rightarrow> (Inl (SendError m), w\<lparr>send_attempts := Suc (send_attempts w)\<rparr>))"

text \<open>Looking up a method on a global service: \<^verbatim>\<open>AttributeError\<close> while it is \<^verbatim>\<open>None\<close>.\<close>

definition the_service :: "(world \<Rightarrow> 'a option) \<Rightarrow> string \<Rightarrow> (world, 'a) action" where
  "the_service global attr w =
     (case global w of None \<Rightarrow> (Inl (none_has_no_attribute attr), w) | Some svc \<Rightarrow> (Inr svc, w))"

text \<open>\<^verbatim>\<open>active_sessions[session_id]\<close>.\<close>

definition get_session :: "string \<Rightarrow> (world, session) action" where
  "get_session session_id w =
     (case active_sessions w session_id of
        None \<Rightarrow> (Inl (KeyError session_id), w)
      | Some s \<Rightarrow> (Inr s, w))"

text \<open>\<^verbatim>\<open>xs[-10:]\<close> when \<^verbatim>\<open>len(xs) > 10\<close>, as lines 223 and 224 of the server apply it.\<close>

definition keep_last_10 :: "'a list \<Rightarrow> 'a list" where
  "keep_last_10 xs = (if length xs > 10 then drop (length xs - 10) xs else xs)"

text \<open>
  Lines 219 to 225: both messages are appended to the list of the session fetched at the
  start of the turn, the list is cut to its last ten entries, and the session refers to
  the result. No \<^verbatim>\<open>await\<close> and no call that can raise stands between these statements.
\<close>

definition update_history :: "string \<Rightarrow> session \<Rightarrow> string \<Rightarrow> string \<Rightarrow> (world, unit) action" where
  "update_history session_id s user_text llm_response w =
     (let history = conversation_history s
                      @ [\<lparr>role = ''user'', content = user_text\<rparr>,
                         \<lparr>role = ''assistant'', content = llm_response\<rparr>];
          history = keep_last_10 history
      in (Inr (), w\<lparr>active_sessions :=
                       (active_sessions w)(session_id \<mapsto> s\<lparr>conversation_history := history\<rparr>)\<rparr>))"

text \<open>Lines 259 to 261: the temporary audio file is removed if it is there.\<close>

definition remove_temp_audio :: "string \<Rightarrow> (world, unit) action" where
  "remove_temp_audio audio_path w =
     (if path_exists (files w) audio_path
      then (Inr (), w\<lparr>files := unlink (files w) audio_path\<rparr>)
      else (Inr (), w))"

text \<open>The \<^verbatim>\<open>try\<close> block of \<^verbatim>\<open>process_user_input\<close>, statement by statement.\<close>

definition process_user_input_body :: "env \<Rightarrow> string \<Rightarrow> string \<Rightarrow> (world, unit) action" where
  "process_user_input_body e session_id user_text =
     bind (get_session session_id) (\<lambda>s.
     bind (send_json e (Status ''thinking'' ''Generating response...'')) (\<lambda>_.
     bind (the_service llm_service ''generate_response'') (\<lambda>_.
     bind (generate_response e user_text (conversation_history s)) (\<lambda>llm_response.
     bind (send_json e (Response llm_response)) (\<lambda>_.
     bind (update_history session_id s user_text llm_response) (\<lambda>_.
     bind (send_json e (Status ''synthesizing'' ''Synthesizing speech...'')) (\<lambda>_.
     bind (the_service tts_service ''synthesize'') (\<lambda>_.
     bind (synthesize e llm_response) (\<lambda>audio_path.
     bind (send_json e (Status ''generating_video'' ''Generating avatar video...'')) (\<lambda>_.
     bind (the_service avatar_service ''generate_avatar_video'') (\<lambda>svc.
     bind (generate_avatar_video e svc audio_path None None 1 420) (\<lambda>video_path.
     bind (send_json e (VideoReady (''/video/'' @ path_name video_path) ''Avatar video ready!'')) (\<lambda>_.
     remove_temp_audio audio_path)))))))))))))"

text \<open>\<^verbatim>\<open>process_user_input\<close>: the block above under its \<^verbatim>\<open>except Exception\<close> handler.\<close>

definition process_user_input :: "env \<Rightarrow> string \<Rightarrow> string \<Rightarrow> (world, unit) action" where
  "process_user_input e session_id user_text =
     try_except (process_user_input_body e session_id user_text)
       (\<lambda>ex. send_json e (ErrorFrame (''Processing failed: '' @ str_exn ex)))"

text \<open>\<^verbatim>\<open>handle_audio\<close>.\<close>

definition handle_audio :: "env \<Rightarrow> string \<Rightarrow> string \<Rightarrow> (world, unit) action" where
  "handle_audio e session_id audio_data =
     try_except
       (bind (send_json e (Status ''transcribing'' ''Transcribing your speech...'')) (\<lambda>_.
        bind (the_service stt_service ''transcribe'') (\<lambda>_.
        bind (transcribe e audio_data) (\<lambda>user_text.
        bind (send_json e (Transcription user_text)) (\<lambda>_.
        process_user_input e session_id user_text)))))
       (\<lambda>ex. send_json e (ErrorFrame (''Audio processing failed: '' @ str_exn ex)))"

text \<open>
  \<^verbatim>\<open>handle_message\<close>, on the dictionary parsed from a text frame (keys and values are
  strings).
\<close>

definition handle_message :: "env \<Rightarrow> string \<Rightarrow> (string \<rightharpoonup> string) \<Rightarrow> (world, unit) action" where
  "handle_message e session_id data =
     (let message_type = data ''type''
      in if message_type = Some ''text_input''
         then process_user_input e session_id (case data ''text'' of None \<Rightarrow> [] | Some t \<Rightarrow> t)
         else if message_type = Some ''config''
         then send_json e (ConfigUpdated ''Configuration updated'')
         else return ())"

text \<open>
  What \<^verbatim>\<open>websocket.receive\<close> hands to the loop of \<^verbatim>\<open>websocket_endpoint\<close>: a text frame
  that parses to a dictionary, a text frame that does not parse, a binary frame, or a
  message with neither key.
\<close>

datatype inbound =
    JsonText "string \<rightharpoonup> string"
  | BadText string
  | Bytes string
  | Neither

text \<open>One pass through the body of the \<^verbatim>\<open>while True\<close> loop.\<close>

definition dispatch :: "env \<Rightarrow> string \<Rightarrow> inbound \<Rightarrow> (world, unit) action" where
  "dispatch e session_id message =
     (case message of
        JsonText data \<Rightarrow> handle_message e session_id data
      | BadText m \<Rightarrow> raise (JSONDecodeError m)
      | Bytes audio_data \<Rightarrow> handle_audio e session_id audio_data
      | Neither \<Rightarrow> return ())"

text \<open>
  The loop itself, over the messages the client sends before it leaves, each with the
  environment it is handled in. The loop has no exit but an exception: when the messages
  are used up, \<^verbatim>\<open>receive\<close> raises.
\<close>

fun receive_loop :: "string \<Rightarrow> (env \<times> inbound) list \<Rightarrow> (world, unit) action" where
  "receive_loop session_id [] = raise WebSocketDisconnect"
| "receive_loop session_id ((e, message) # rest) =
     bind (dispatch e session_id message) (\<lambda>_. receive_loop session_id rest)"

text \<open>
  \<^verbatim>\<open>websocket_endpoint\<close>, for an accepted connection whose identifier has been drawn
  from the clock: \<open>e0\<close> is the environment of the greeting frame.
\<close>

definition websocket_endpoint :: "env \<Rightarrow> string \<Rightarrow> (env \<times> inbound) list \<Rightarrow> (world, unit) action" where
  "websocket_endpoint e0 session_id messages w =
     (let w1 = w\<lparr>active_sessions :=
                   (active_sessions w)(session_id \<mapsto> \<lparr>conversation_history = []\<rparr>)\<rparr>
      in try_finally
           (try_except
              (bind (send_json e0 (Connection session_id ''Connected to Interactive Avatar''))
                 (\<lambda>_. receive_loop session_id messages))
              (\<lambda>ex. return ()))
           (cleanup_session session_id) w1)"


section \<open>Observations on a run, and example inputs\<close>

text \<open>The frames a handler has sent between two worlds of the same connection.\<close>

definition frames_since :: "world \<Rightarrow> world \<Rightarrow> frame list" where
  "frames_since w w' = drop (length (outbox w)) (outbox w')"

fun is_error :: "frame \<Rightarrow> bool" where
  "is_error (ErrorFrame _) = True"
| "is_error _ = False"

fun is_video_ready :: "frame \<Rightarrow> bool" where
  "is_video_ready (VideoReady _ _) = True"
| "is_video_ready _ = False"

text \<open>The texts of the \<^verbatim>\<open>response\<close> frames among a list of frames.\<close>

fun responses :: "frame list \<Rightarrow> string list" where
  "responses [] = []"
| "responses (Response t # fs) = t # responses fs"
| "responses (_ # fs) = responses fs"

text \<open>An inbound message that starts a turn: binary audio, or a \<^verbatim>\<open>text_input\<close> message.\<close>

fun is_turn :: "inbound \<Rightarrow> bool" where
  "is_turn (Bytes _) = True"
| "is_turn (JsonText data) = (data ''type'' = Some ''text_input'')"
| "is_turn _ = False"

text \<open>
  A history made of whole turns: a user message followed by an assistant message, over
  and over.
\<close>

fun whole_turns :: "chat_message list \<Rightarrow> bool" where
  "whole_turns [] = True"
| "whole_turns [m] = False"
| "whole_turns (u # a # rest) = (role u = ''user'' \<and> role a = ''assistant'' \<and> whole_turns rest)"

text \<open>
  An environment in which every backend answers and every frame is delivered, and a
  world after startup with one registered session.
\<close>

definition demo_env :: env where
  "demo_env =
     \<lparr> settings = default_settings,
       transcriptions_create = (\<lambda>_. Inr ''hello''),
       chat_completions_create = (\<lambda>_. Inr ''Hi! How can I help?''),
       speech_create = (\<lambda>_. Inr ''mp3 bytes''),
       temp_file_name = ''/tmp/tmpa1b2c3.mp3'',
       pipeline_initialize = None,
       pipeline_generate = (\<lambda>_ _ _ _ _. Inr ''mp4 bytes''),
       timestamp = ''20240101_120000'',
       send_error = (\<lambda>_. None) \<rparr>"

definition demo_world :: world where
  "demo_world =
     \<lparr> stt_service = Some (), llm_service = Some (), tts_service = Some (),
       avatar_service = Some \<lparr>is_initialized = True\<rparr>,
       active_sessions = [''session_1'' \<mapsto> \<lparr>conversation_history = []\<rparr>],
       files = Map.empty, outbox = [], send_attempts = 0 \<rparr>"

text \<open>The same environment with a text-to-speech backend, or a video pipeline, that raises.\<close>

definition synthesis_fails :: env where
  "synthesis_fails = demo_env\<lparr>speech_create := (\<lambda>_. Inl ''Connection error.'')\<rparr>"

definition render_fails :: env where
  "render_fails = demo_env\<lparr>pipeline_generate := (\<lambda>_ _ _ _ _. Inl ''CUDA out of memory'')\<rparr>"


text \<open>A history of five whole turns, and the world whose session has it.\<close>

definition full_history :: "chat_message list" where
  "full_history =
     [\<lparr>role = ''user'', content = ''q1''\<rparr>, \<lparr>role = ''assistant'', content = ''a1''\<rparr>,
      \<lparr>role = ''user'', content = ''q2''\<rparr>, \<lparr>role = ''assistant'', content = ''a2''\<rparr>,
      \<lparr>role = ''user'', content = ''q3''\<rparr>, \<lparr>role = ''assistant'', content = ''a3''\<rparr>,
      \<lparr>role = ''user'', content = ''q4''\<rparr>, \<lparr>role = ''assistant'', content = ''a4''\<rparr>,
      \<lparr>role = ''user'', content = ''q5''\<rparr>, \<lparr>role = ''assistant'', content = ''a5''\<rparr>]"

definition busy_world :: world where
  "busy_world =
     demo_world\<lparr>active_sessions := [''session_1'' \<mapsto> \<lparr>conversation_history = full_history\<rparr>]\<rparr>"


section \<open>Properties\<close>

lemmas action_defs = bind_def try_except_def return_def raise_def

lemmas step_defs =
  send_json_def the_service_def transcribe_def get_session_def generate_response_def
  update_history_def synthesize_def generate_avatar_video_def generate_sync_def
  initialize_def remove_temp_audio_def

lemmas pui_defs = process_user_input_def process_user_input_body_def

lemmas demo_defs =
  demo_env_def demo_world_def synthesis_fails_def render_fails_def default_settings_def
  full_history_def busy_world_def

lemmas eval_defs =
  dispatch_def handle_message_def handle_audio_def pui_defs action_defs step_defs demo_defs
  frames_since_def keep_last_10_def path_exists_def unlink_def or_default_def path_name_def
  Let_def

subsection \<open>Auxiliary facts\<close>

lemma keep_last_10_length: "length (keep_last_10 xs) \<le> 10"
  by (simp add: keep_last_10_def)

lemma keep_last_10_drop: "keep_last_10 xs = drop (length xs - 10) xs"
  by (simp add: keep_last_10_def)

lemma whole_turns_append: "whole_turns xs \<Longrightarrow> whole_turns ys \<Longrightarrow> whole_turns (xs @ ys)"
  by (induction xs rule: whole_turns.induct) auto

lemma whole_turns_drop: "whole_turns xs \<Longrightarrow> whole_turns (drop (2 * k) xs)"
proof (induction xs arbitrary: k rule: whole_turns.induct)
  case (3 u a rest)
  then show ?case by (cases k) auto
qed auto

lemma whole_turns_even: "whole_turns xs \<Longrightarrow> even (length xs)"
  by (induction xs rule: whole_turns.induct) auto

lemma whole_turns_keep_last_10:
  assumes "whole_turns xs"
  shows "whole_turns (keep_last_10 xs)"
proof -
  from assms have "even (length xs - 10)"
    by (simp add: whole_turns_even)
  then obtain k where "length xs - 10 = 2 * k"
    by (rule evenE)
  with assms show ?thesis
    by (simp add: keep_last_10_def whole_turns_drop)
qed

lemma send_json_cases:
  assumes "send_json e f w1 = (r, w')"
  shows "active_sessions w' = active_sessions w1 \<and> files w' = files w1 \<and>
         ((r = Inr () \<and> outbox w' = outbox w1 @ [f] \<and> send_error e (send_attempts w1) = None) \<or>
          (\<exists>m. r = Inl (SendError m) \<and> outbox w' = outbox w1 \<and>
                send_error e (send_attempts w1) = Some m))"
  using assms by (auto simp: send_json_def split: option.splits)

lemma frames_since_append: "outbox w' = outbox w @ new \<Longrightarrow> frames_since w w' = new"
  by (simp add: frames_since_def)

text \<open>
  What one call of \<^verbatim>\<open>process_user_input\<close> does to the connection and to the registry:
  frames are only appended, no session is added or removed, and the history of the
  session is rewritten exactly when a \<^verbatim>\<open>response\<close> frame went out.
\<close>

lemma process_user_input_effect:
  assumes "process_user_input e sid text w = (r, w')"
  shows "outbox w' = outbox w @ frames_since w w' \<and>
         (\<forall>k. (active_sessions w' k = None) = (active_sessions w k = None)) \<and>
         (\<forall>s. active_sessions w sid = Some s \<longrightarrow>
            map_option conversation_history (active_sessions w' sid) =
              Some (case responses (frames_since w w') of
                 [] \<Rightarrow> conversation_history s
               | reply # _ \<Rightarrow> keep_last_10 (conversation_history s @
                     [\<lparr>role = ''user'', content = text\<rparr>,
                      \<lparr>role = ''assistant'', content = reply\<rparr>])))"
  using assms
  unfolding pui_defs frames_since_def action_defs step_defs
  by (auto simp: Let_def split: option.splits sum.splits if_splits prod.splits)

text \<open>
  A call that delivers \<^verbatim>\<open>video_ready\<close> has sent these five frames and nothing else, and
  every backend it called has answered: the chat completion on the system prompt, the
  history and the user's text, the speech synthesis on the reply, and the video pipeline
  on the temporary audio file with the defaults of the settings.
\<close>

lemma process_user_input_video_ready:
  assumes "process_user_input e sid text w = (r, w')"
    and "filter is_video_ready (frames_since w w') \<noteq> []"
  shows "r = Inr () \<and>
         (\<exists>reply url. frames_since w w' =
            [Status ''thinking'' ''Generating response...'', Response reply,
             Status ''synthesizing'' ''Synthesizing speech...'',
             Status ''generating_video'' ''Generating avatar video...'',
             VideoReady url ''Avatar video ready!''] \<and>
            (\<exists>s audio video.
               active_sessions w sid = Some s \<and>
               chat_completions_create e
                 (\<lparr>role = ''system'', content = system_prompt\<rparr> # conversation_history s
                    @ [\<lparr>role = ''user'', content = text\<rparr>]) = Inr reply \<and>
               speech_create e reply = Inr audio \<and>
               pipeline_generate e (default_avatar_prompt (settings e))
                 (default_avatar_image (settings e)) (temp_file_name e) 1 420 = Inr video))"
  using assms
  unfolding pui_defs frames_since_def action_defs step_defs or_default_def
  by (auto simp: Let_def split: option.splits sum.splits if_splits prod.splits)

text \<open>
  So a turn in which the chat completion, the speech synthesis or the video pipeline
  raises on what the turn hands it does not deliver \<^verbatim>\<open>video_ready\<close>.
\<close>

lemma backend_failure_prevents_video_ready:
  assumes run: "process_user_input e sid user_text w = (r, w')"
    and reg: "active_sessions w sid = Some s"
    and raises:
      "(\<exists>m. chat_completions_create e
              (\<lparr>role = ''system'', content = system_prompt\<rparr> # conversation_history s
                 @ [\<lparr>role = ''user'', content = user_text\<rparr>]) = Inl m) \<or>
       (\<exists>reply m. chat_completions_create e
              (\<lparr>role = ''system'', content = system_prompt\<rparr> # conversation_history s
                 @ [\<lparr>role = ''user'', content = user_text\<rparr>]) = Inr reply \<and>
            speech_create e reply = Inl m) \<or>
       (\<exists>m. pipeline_generate e (default_avatar_prompt (settings e))
              (default_avatar_image (settings e)) (temp_file_name e) 1 420 = Inl m)"
  shows "filter is_video_ready (frames_since w w') = []"
proof (rule ccontr)
  assume "filter is_video_ready (frames_since w w') \<noteq> []"
  from process_user_input_video_ready [OF run this] reg
  obtain reply audio video where
    "chat_completions_create e
       (\<lparr>role = ''system'', content = system_prompt\<rparr> # conversation_history s
          @ [\<lparr>role = ''user'', content = user_text\<rparr>]) = Inr reply"
    and "speech_create e reply = Inr audio"
    and "pipeline_generate e (default_avatar_prompt (settings e))
           (default_avatar_image (settings e)) (temp_file_name e) 1 420 = Inr video"
    by auto
  with raises show False
    by auto
qed

text \<open>
  On a connection that takes every frame, a call that does not deliver \<^verbatim>\<open>video_ready\<close>
  returns normally after one error frame, its last frame.
\<close>

lemma process_user_input_failure:
  assumes "process_user_input e sid text w = (r, w')"
    and "\<forall>n. send_error e n = None"
    and "filter is_video_ready (frames_since w w') = []"
  shows "r = Inr () \<and>
         (\<exists>pre d. frames_since w w' = pre @ [ErrorFrame (''Processing failed: '' @ d)] \<and>
                  filter is_error pre = [])"
  using assms
  unfolding pui_defs frames_since_def action_defs step_defs
  by (auto simp: Let_def split: option.splits sum.splits if_splits prod.splits)

text \<open>
  The two ways through \<^verbatim>\<open>handle_audio\<close>: it fails before the transcript has been sent
  and goes to its handler, or it sends the two transcription frames and calls
  \<^verbatim>\<open>process_user_input\<close>, going to its handler only if that call raises.
\<close>

lemma handle_audio_cases [consumes 1, case_names early call]:
  assumes run: "handle_audio e sid a w = (r, w')"
  obtains
    (early) ex w1 pre where
      "outbox w1 = outbox w @ pre" "filter is_error pre = []" "filter is_video_ready pre = []"
      "responses pre = []" "active_sessions w1 = active_sessions w" "files w1 = files w"
      "send_json e (ErrorFrame (''Audio processing failed: '' @ str_exn ex)) w1 = (r, w')"
  | (call) t r3 w2 w3 where
      "outbox w2 = outbox w @ [Status ''transcribing'' ''Transcribing your speech...'',
                               Transcription t]"
      "active_sessions w2 = active_sessions w" "files w2 = files w"
      "process_user_input e sid t w2 = (r3, w3)"
      "(r3 = Inr () \<and> r = Inr () \<and> w' = w3) \<or>
       (\<exists>ex. r3 = Inl ex \<and>
             send_json e (ErrorFrame (''Audio processing failed: '' @ str_exn ex)) w3 = (r, w'))"
      "transcriptions_create e a = Inr t"
proof -
  let ?handler = "\<lambda>ex. send_json e (ErrorFrame (''Audio processing failed: '' @ str_exn ex))"
  let ?transcribing = "Status ''transcribing'' ''Transcribing your speech...''"
  let ?w1 = "w\<lparr>send_attempts := Suc (send_attempts w)\<rparr>"
  let ?w1' = "w\<lparr>outbox := outbox w @ [?transcribing], send_attempts := Suc (send_attempts w)\<rparr>"
  show thesis
  proof (cases "send_error e (send_attempts w)")
    case (Some m)
    then have "handle_audio e sid a w = ?handler (SendError m) ?w1"
      by (simp add: handle_audio_def action_defs send_json_def)
    with run show thesis
      by (intro early [of ?w1 "[]" "SendError m"]) simp_all
  next
    case sent: None
    show thesis
    proof (cases "stt_service w")
      case None
      with sent have "handle_audio e sid a w = ?handler (none_has_no_attribute ''transcribe'') ?w1'"
        by (simp add: handle_audio_def action_defs send_json_def the_service_def)
      with run show thesis
        by (intro early [of ?w1' "[?transcribing]" "none_has_no_attribute ''transcribe''"]) simp_all
    next
      case stt: (Some u)
      show thesis
      proof (cases "transcriptions_create e a")
        case (Inl m)
        with sent stt have "handle_audio e sid a w = ?handler (BackendError m) ?w1'"
          by (simp add: handle_audio_def action_defs send_json_def the_service_def transcribe_def)
        with run show thesis
          by (intro early [of ?w1' "[?transcribing]" "BackendError m"]) simp_all
      next
        case transcript: (Inr t)
        let ?w2' = "?w1'\<lparr>send_attempts := Suc (Suc (send_attempts w))\<rparr>"
        let ?w2 = "w\<lparr>outbox := outbox w @ [?transcribing, Transcription t],
                      send_attempts := Suc (Suc (send_attempts w))\<rparr>"
        show thesis
        proof (cases "send_error e (Suc (send_attempts w))")
          case (Some m)
          with sent stt transcript have "handle_audio e sid a w = ?handler (SendError m) ?w2'"
            by (simp add: handle_audio_def action_defs send_json_def the_service_def
                  transcribe_def)
          with run show thesis
            by (intro early [of ?w2' "[?transcribing]" "SendError m"]) simp_all
        next
          case None
          obtain r3 w3 where inner: "process_user_input e sid t ?w2 = (r3, w3)"
            by (cases "process_user_input e sid t ?w2")
          with sent stt transcript None
          have "handle_audio e sid a w =
                  (case r3 of Inl ex \<Rightarrow> ?handler ex w3 | Inr u \<Rightarrow> (Inr u, w3))"
            by (simp add: handle_audio_def action_defs send_json_def the_service_def
                  transcribe_def split: sum.split)
          with run have "(r3 = Inr () \<and> r = Inr () \<and> w' = w3) \<or>
                         (\<exists>ex. r3 = Inl ex \<and> ?handler ex w3 = (r, w'))"
            by (cases r3) auto
          with inner transcript show thesis
            by (intro call [of ?w2 t r3 w3]) simp_all
        qed
      qed
    qed
  qed
qed

subsection \<open>The session registry\<close>

text \<open>
  C7. Removing a session is idempotent. The \<^verbatim>\<open>finally\<close> block of the endpoint never
  raises (the membership test keeps \<^verbatim>\<open>del\<close> away from a missing key); on an identifier
  that is not registered it leaves the world as it is; and running it on its own result
  returns that result again, with the identifier gone and every other entry kept.
\<close>

theorem remove_session_idempotent:
  "(active_sessions w sid = None \<longrightarrow> cleanup_session sid w = (Inr (), w)) \<and>
   fst (cleanup_session sid w) = Inr () \<and>
   active_sessions (snd (cleanup_session sid w)) = (active_sessions w)(sid := None) \<and>
   cleanup_session sid (snd (cleanup_session sid w)) = cleanup_session sid w"
  by (cases "active_sessions w sid") (auto simp: cleanup_session_def del_item_def)

theorem remove_session_idempotent_witness:
  "active_sessions demo_world ''session_2'' = None \<and>
   cleanup_session ''session_2'' demo_world = (Inr (), demo_world) \<and>
   active_sessions (snd (cleanup_session ''session_1'' demo_world)) ''session_1'' = None \<and>
   cleanup_session ''session_1'' (snd (cleanup_session ''session_1'' demo_world))
     = cleanup_session ''session_1'' demo_world"
proof -
  have absent: "active_sessions demo_world ''session_2'' = None"
    by (simp add: demo_world_def)
  from remove_session_idempotent [of demo_world "''session_2''"] absent
  have "cleanup_session ''session_2'' demo_world = (Inr (), demo_world)"
    by blast
  moreover from remove_session_idempotent [of demo_world "''session_1''"]
  have "active_sessions (snd (cleanup_session ''session_1'' demo_world)) ''session_1'' = None"
    and "cleanup_session ''session_1'' (snd (cleanup_session ''session_1'' demo_world))
           = cleanup_session ''session_1'' demo_world"
    by simp_all
  ultimately show ?thesis using absent by simp
qed

subsection \<open>The plain requests\<close>




text \<open>
  C10. The health endpoint. The top-level status is \<^verbatim>\<open>healthy\<close> in every world, also in
  one where no service has been constructed; each of the first three flags says whether
  its service is constructed; the avatar flag is set exactly when the avatar service is
  constructed and its initialization flag is set.
\<close>

theorem health_check_status_and_flags:
  "status (health_check w) = ''healthy'' \<and>
   stt (services (health_check w)) = (stt_service w \<noteq> None) \<and>
   llm (services (health_check w)) = (llm_service w \<noteq> None) \<and>
   tts (services (health_check w)) = (tts_service w \<noteq> None) \<and>
   avatar (services (health_check w)) =
     (\<exists>svc. avatar_service w = Some svc \<and> is_initialized svc) \<and>
   health_check (w\<lparr>stt_service := None, llm_service := None, tts_service := None,
                   avatar_service := None\<rparr>)
     = \<lparr> status = ''healthy'',
         services = \<lparr> stt = False, llm = False, tts = False, avatar = False \<rparr> \<rparr>"
  by (simp add: health_check_def split: option.split)

subsection \<open>The avatar service\<close>

text \<open>
  C9. Defaults of video generation. Called with the empty string as scene prompt and as
  reference image, \<^verbatim>\<open>generate_avatar_video\<close> runs the pipeline with the default prompt and
  the default image of the settings; and for either argument alone, passing the empty
  string does what omitting the argument does.
\<close>

theorem empty_argument_takes_settings_default:
  "generate_avatar_video e svc audio_path (Some []) (Some []) num_clips seed =
     bind (if \<not> is_initialized svc then initialize e svc else return svc)
       (\<lambda>_. generate_sync e audio_path (default_avatar_prompt (settings e))
               (default_avatar_image (settings e)) num_clips seed) \<and>
   generate_avatar_video e svc audio_path (Some []) reference_image num_clips seed =
     generate_avatar_video e svc audio_path None reference_image num_clips seed \<and>
   generate_avatar_video e svc audio_path prompt (Some []) num_clips seed =
     generate_avatar_video e svc audio_path prompt None num_clips seed"
  by (simp add: generate_avatar_video_def or_default_def)

subsection \<open>One inbound message, and the loop over them\<close>

lemma handler_frames:
  assumes "send_json e f w1 = (r, w')" "outbox w1 = outbox w @ pre"
  shows "frames_since w w' = pre \<or> (r = Inr () \<and> frames_since w w' = pre @ [f])"
  using send_json_cases [OF assms(1)] assms(2) by (auto simp: frames_since_def)

text \<open>
  One inbound message keeps the session registered, and leaves its history alone or
  leaves it with at most ten entries.
\<close>

lemma dispatch_history:
  assumes run: "dispatch e sid msg w = (r, w')" and reg: "active_sessions w sid = Some s"
  shows "\<exists>s'. active_sessions w' sid = Some s' \<and>
           (conversation_history s' = conversation_history s \<or>
            length (conversation_history s') \<le> 10)"
proof -
  have pui: "\<exists>s'. active_sessions w3 sid = Some s' \<and>
               (conversation_history s' = conversation_history s \<or>
                length (conversation_history s') \<le> 10)"
    if "process_user_input e sid user_text w2 = (r3, w3)"
      and "active_sessions w2 = active_sessions w"
    for user_text w2 r3 w3
  proof -
    from process_user_input_effect [OF that(1)] that(2) reg
    have "map_option conversation_history (active_sessions w3 sid) =
            Some (case responses (frames_since w2 w3) of
               [] \<Rightarrow> conversation_history s
             | reply # _ \<Rightarrow> keep_last_10 (conversation_history s @
                   [\<lparr>role = ''user'', content = user_text\<rparr>,
                    \<lparr>role = ''assistant'', content = reply\<rparr>]))"
      by simp
    then show ?thesis
      by (cases "responses (frames_since w2 w3)") (auto simp: keep_last_10_length)
  qed
  show ?thesis
  proof (cases msg)
    case (JsonText data)
    show ?thesis
    proof (cases "data ''type'' = Some ''text_input''")
      case True
      with run JsonText obtain user_text where "process_user_input e sid user_text w = (r, w')"
        by (auto simp: dispatch_def handle_message_def)
      from pui [OF this] show ?thesis by simp
    next
      case False
      with run JsonText
      have "send_json e (ConfigUpdated ''Configuration updated'') w = (r, w') \<or> w' = w"
        by (auto simp: dispatch_def handle_message_def return_def split: if_splits)
      with reg show ?thesis by (auto dest: send_json_cases)
    qed
  next
    case (Bytes a)
    with run have "handle_audio e sid a w = (r, w')"
      by (simp add: dispatch_def)
    then show ?thesis
    proof (cases rule: handle_audio_cases)
      case (early ex w1 pre)
      from send_json_cases [OF early(7)] early(5) reg show ?thesis by auto
    next
      case (call t r3 w2 w3)
      from pui [OF call(4) call(2)] call(5) show ?thesis
        by (auto dest: send_json_cases)
    qed
  next
    case (BadText m)
    with run reg show ?thesis by (auto simp: dispatch_def raise_def)
  next
    case Neither
    with run reg show ?thesis by (auto simp: dispatch_def return_def)
  qed
qed

lemma receive_loop_history:
  assumes "receive_loop sid msgs w = (r, w')" and "active_sessions w sid = Some s"
    and "length (conversation_history s) \<le> 10"
  shows "\<exists>s'. active_sessions w' sid = Some s' \<and> length (conversation_history s') \<le> 10"
  using assms
proof (induction msgs arbitrary: w s)
  case Nil
  then show ?case by (simp add: raise_def)
next
  case (Cons em rest)
  obtain e msg where em: "em = (e, msg)"
    by (cases em)
  obtain r1 w1 where step: "dispatch e sid msg w = (r1, w1)"
    by (cases "dispatch e sid msg w")
  from dispatch_history [OF step Cons.prems(2)] Cons.prems(3)
  obtain s1 where s1: "active_sessions w1 sid = Some s1" "length (conversation_history s1) \<le> 10"
    by auto
  show ?case
  proof (cases r1)
    case (Inl ex)
    with Cons.prems(1) em step have "w' = w1"
      by (simp add: bind_def)
    with s1 show ?thesis by simp
  next
    case (Inr u)
    with Cons.prems(1) em step have "receive_loop sid rest w1 = (r, w')"
      by (simp add: bind_def)
    from Cons.IH [OF this s1] show ?thesis .
  qed
qed

subsection \<open>The conversation buffer\<close>

text \<open>
  C1, as the code has it. In one call of \<^verbatim>\<open>process_user_input\<close> for a registered session,
  the history is rewritten exactly when the \<^verbatim>\<open>response\<close> frame of the turn has gone out,
  that is once the reply is generated and sent, whatever happens to audio synthesis and
  video rendering afterwards: it then is the old history followed by the user message
  and the assistant message, cut to its last ten entries. When no \<^verbatim>\<open>response\<close> frame went
  out, the history is what it was. The two messages are only ever appended together: a
  history of whole turns stays one.
\<close>

theorem history_committed_with_response:
  assumes "process_user_input e sid user_text w = (r, w')"
    and "active_sessions w sid = Some s"
  shows "\<exists>s'. active_sessions w' sid = Some s' \<and>
           conversation_history s' =
             (case responses (frames_since w w') of
                [] \<Rightarrow> conversation_history s
              | reply # _ \<Rightarrow>
                  keep_last_10 (conversation_history s @
                    [\<lparr>role = ''user'', content = user_text\<rparr>,
                     \<lparr>role = ''assistant'', content = reply\<rparr>])) \<and>
           (whole_turns (conversation_history s) \<longrightarrow> whole_turns (conversation_history s'))"
proof -
  let ?after = "case responses (frames_since w w') of
                  [] \<Rightarrow> conversation_history s
                | reply # _ \<Rightarrow>
                    keep_last_10 (conversation_history s @
                      [\<lparr>role = ''user'', content = user_text\<rparr>,
                       \<lparr>role = ''assistant'', content = reply\<rparr>])"
  from process_user_input_effect [OF assms(1)] assms(2)
  have "map_option conversation_history (active_sessions w' sid) = Some ?after"
    by simp
  then obtain s' where s': "active_sessions w' sid = Some s'" "conversation_history s' = ?after"
    by auto
  have "whole_turns ?after" if "whole_turns (conversation_history s)"
  proof (cases "responses (frames_since w w')")
    case Nil
    with that show ?thesis by simp
  next
    case (Cons reply more)
    have "whole_turns [\<lparr>role = ''user'', content = user_text\<rparr>,
                       \<lparr>role = ''assistant'', content = reply\<rparr>]"
      by simp
    with that Cons show ?thesis
      by (simp add: whole_turns_append whole_turns_keep_last_10 del: whole_turns.simps)
  qed
  with s' show ?thesis by simp
qed

theorem history_committed_with_response_witness:
  "active_sessions demo_world ''session_1'' = Some \<lparr>conversation_history = []\<rparr> \<and>
   frames_since demo_world (snd (process_user_input synthesis_fails ''session_1'' ''hello'' demo_world)) =
     [Status ''thinking'' ''Generating response...'', Response ''Hi! How can I help?'',
      Status ''synthesizing'' ''Synthesizing speech...'',
      ErrorFrame ''Processing failed: Connection error.''] \<and>
   (\<exists>s'. active_sessions (snd (process_user_input synthesis_fails ''session_1'' ''hello'' demo_world))
           ''session_1'' = Some s' \<and>
         conversation_history s' =
           [\<lparr>role = ''user'', content = ''hello''\<rparr>,
            \<lparr>role = ''assistant'', content = ''Hi! How can I help?''\<rparr>] \<and>
         whole_turns (conversation_history s'))"
proof -
  let ?run = "process_user_input synthesis_fails ''session_1'' ''hello'' demo_world"
  have reg: "active_sessions demo_world ''session_1'' = Some \<lparr>conversation_history = []\<rparr>"
    by (simp add: demo_world_def)
  have run: "?run = (fst ?run, snd ?run)"
    by simp
  have frames: "frames_since demo_world (snd ?run) =
     [Status ''thinking'' ''Generating response...'', Response ''Hi! How can I help?'',
      Status ''synthesizing'' ''Synthesizing speech...'',
      ErrorFrame ''Processing failed: Connection error.'']"
    by (simp add: eval_defs)
  from history_committed_with_response [OF run reg] frames reg show ?thesis
    by (simp add: keep_last_10_def)
qed

text \<open>
  The claim as written fails: here the video pipeline raises, the turn ends in an error
  frame without a \<^verbatim>\<open>video_ready\<close> frame, and the user and assistant messages of the turn
  are in the history, which was empty before the turn.
\<close>

theorem history_kept_after_render_failure:
  "map_option conversation_history (active_sessions demo_world ''session_1'') = Some [] \<and>
   map_option conversation_history
     (active_sessions (snd (process_user_input render_fails ''session_1'' ''hello'' demo_world))
        ''session_1'')
     = Some [\<lparr>role = ''user'', content = ''hello''\<rparr>,
             \<lparr>role = ''assistant'', content = ''Hi! How can I help?''\<rparr>] \<and>
   frames_since demo_world (snd (process_user_input render_fails ''session_1'' ''hello'' demo_world)) =
     [Status ''thinking'' ''Generating response...'', Response ''Hi! How can I help?'',
      Status ''synthesizing'' ''Synthesizing speech...'',
      Status ''generating_video'' ''Generating avatar video...'',
      ErrorFrame ''Processing failed: CUDA out of memory'']"
  by (simp add: eval_defs)

text \<open>
  C3. The cap of ten. A call of \<^verbatim>\<open>process_user_input\<close> for a registered session leaves
  the history as it was, or leaves the old history followed by the two messages of the
  turn with the oldest entries dropped from the front (the rest in their order) so that
  at most ten remain. And over any sequence of inbound messages of a connection, a
  history of at most ten entries (the endpoint starts a session with none) still has at
  most ten entries afterwards.
\<close>

theorem conversation_buffer_capped:
  "(process_user_input e sid user_text w = (r, w') \<and> active_sessions w sid = Some s \<longrightarrow>
      (\<exists>s'. active_sessions w' sid = Some s' \<and>
         (conversation_history s' = conversation_history s \<or>
          (\<exists>reply.
             conversation_history s' =
               drop (length (conversation_history s) + 2 - 10)
                 (conversation_history s @
                    [\<lparr>role = ''user'', content = user_text\<rparr>,
                     \<lparr>role = ''assistant'', content = reply\<rparr>]) \<and>
             length (conversation_history s') \<le> 10)))) \<and>
   (receive_loop sid msgs w0 = (r0, w0') \<and> active_sessions w0 sid = Some s0 \<and>
    length (conversation_history s0) \<le> 10 \<longrightarrow>
      (\<exists>s'. active_sessions w0' sid = Some s' \<and> length (conversation_history s') \<le> 10))"
proof (intro conjI impI)
  assume "process_user_input e sid user_text w = (r, w') \<and> active_sessions w sid = Some s"
  then have run: "process_user_input e sid user_text w = (r, w')"
    and reg: "active_sessions w sid = Some s"
    by simp_all
  from process_user_input_effect [OF run] reg
  have after: "map_option conversation_history (active_sessions w' sid) =
          Some (case responses (frames_since w w') of
             [] \<Rightarrow> conversation_history s
           | reply # _ \<Rightarrow> keep_last_10 (conversation_history s @
                 [\<lparr>role = ''user'', content = user_text\<rparr>,
                  \<lparr>role = ''assistant'', content = reply\<rparr>]))"
    by simp
  show "\<exists>s'. active_sessions w' sid = Some s' \<and>
         (conversation_history s' = conversation_history s \<or>
          (\<exists>reply.
             conversation_history s' =
               drop (length (conversation_history s) + 2 - 10)
                 (conversation_history s @
                    [\<lparr>role = ''user'', content = user_text\<rparr>,
                     \<lparr>role = ''assistant'', content = reply\<rparr>]) \<and>
             length (conversation_history s') \<le> 10))"
  proof (cases "responses (frames_since w w')")
    case Nil
    with after show ?thesis by auto
  next
    case (Cons reply more)
    with after obtain s' where "active_sessions w' sid = Some s'"
      and "conversation_history s' =
             keep_last_10 (conversation_history s @
               [\<lparr>role = ''user'', content = user_text\<rparr>,
                \<lparr>role = ''assistant'', content = reply\<rparr>])"
      by auto
    then show ?thesis
      using keep_last_10_length [of "conversation_history s @
               [\<lparr>role = ''user'', content = user_text\<rparr>,
                \<lparr>role = ''assistant'', content = reply\<rparr>]"]
      by (auto simp: keep_last_10_drop)
  qed
next
  assume "receive_loop sid msgs w0 = (r0, w0') \<and> active_sessions w0 sid = Some s0 \<and>
          length (conversation_history s0) \<le> 10"
  then show "\<exists>s'. active_sessions w0' sid = Some s' \<and> length (conversation_history s') \<le> 10"
    using receive_loop_history by blast
qed

theorem conversation_buffer_capped_witness:
  "active_sessions busy_world ''session_1'' = Some \<lparr>conversation_history = full_history\<rparr> \<and>
   length full_history = 10 \<and>
   (\<exists>s'. active_sessions (snd (process_user_input demo_env ''session_1'' ''hello'' busy_world))
           ''session_1'' = Some s' \<and>
         conversation_history s' =
           drop 2 full_history @
             [\<lparr>role = ''user'', content = ''hello''\<rparr>,
              \<lparr>role = ''assistant'', content = ''Hi! How can I help?''\<rparr>] \<and>
         length (conversation_history s') = 10) \<and>
   (\<exists>s'. active_sessions
           (snd (receive_loop ''session_1''
                   [(demo_env, Bytes ''pcm''), (render_fails, Bytes ''pcm'')] busy_world))
           ''session_1'' = Some s' \<and>
         length (conversation_history s') \<le> 10)"
proof -
  let ?turn = "process_user_input demo_env ''session_1'' ''hello'' busy_world"
  let ?loop = "receive_loop ''session_1''
                 [(demo_env, Bytes ''pcm''), (render_fails, Bytes ''pcm'')] busy_world"
  have reg: "active_sessions busy_world ''session_1'' = Some \<lparr>conversation_history = full_history\<rparr>"
    by (simp add: busy_world_def demo_world_def)
  have len: "length full_history = 10"
    by (simp add: full_history_def)
  have turn: "?turn = (fst ?turn, snd ?turn)" and loop: "?loop = (fst ?loop, snd ?loop)"
    by simp_all
  have changed: "map_option conversation_history (active_sessions (snd ?turn) ''session_1'') =
      Some (drop 2 full_history @
             [\<lparr>role = ''user'', content = ''hello''\<rparr>,
              \<lparr>role = ''assistant'', content = ''Hi! How can I help?''\<rparr>])"
    by (simp add: eval_defs)
  note capped = conversation_buffer_capped
    [of demo_env "''session_1''" "''hello''" busy_world "fst ?turn" "snd ?turn"
        "\<lparr>conversation_history = full_history\<rparr>"
        "[(demo_env, Bytes ''pcm''), (render_fails, Bytes ''pcm'')]" busy_world
        "fst ?loop" "snd ?loop" "\<lparr>conversation_history = full_history\<rparr>"]
  from capped turn reg
  obtain s' where first: "active_sessions (snd ?turn) ''session_1'' = Some s'"
    by blast
  with changed len have "conversation_history s' =
           drop 2 full_history @
             [\<lparr>role = ''user'', content = ''hello''\<rparr>,
              \<lparr>role = ''assistant'', content = ''Hi! How can I help?''\<rparr>]"
    and "length (conversation_history s') = 10"
    by simp_all
  moreover from capped loop reg len
  have "\<exists>s'. active_sessions (snd ?loop) ''session_1'' = Some s' \<and>
             length (conversation_history s') \<le> 10"
    by simp
  ultimately show ?thesis
    using reg len first by simp
qed

subsection \<open>The frames of a turn\<close>

text \<open>
  A turn in which the client receives \<^verbatim>\<open>video_ready\<close> has sent these frames and no other.
\<close>

lemma video_ready_frame_order:
  assumes run: "dispatch e sid msg w = (r, w')" and turn: "is_turn msg"
    and ready: "filter is_video_ready (frames_since w w') \<noteq> []"
  shows "\<exists>transcript reply url.
           frames_since w w' =
             (case msg of
                Bytes _ \<Rightarrow> [Status ''transcribing'' ''Transcribing your speech...'',
                            Transcription transcript]
              | _ \<Rightarrow> [])
             @ [Status ''thinking'' ''Generating response...'', Response reply,
                Status ''synthesizing'' ''Synthesizing speech...'',
                Status ''generating_video'' ''Generating avatar video...'',
                VideoReady url ''Avatar video ready!'']"
proof (cases msg)
  case (JsonText data)
  with run turn obtain user_text where "process_user_input e sid user_text w = (r, w')"
    by (auto simp: dispatch_def handle_message_def)
  from process_user_input_video_ready [OF this ready]
  obtain reply url where "frames_since w w' =
           [Status ''thinking'' ''Generating response...'', Response reply,
            Status ''synthesizing'' ''Synthesizing speech...'',
            Status ''generating_video'' ''Generating avatar video...'',
            VideoReady url ''Avatar video ready!'']"
    by blast
  with JsonText show ?thesis
    by simp
next
  case (Bytes a)
  with run have "handle_audio e sid a w = (r, w')"
    by (simp add: dispatch_def)
  then show ?thesis
  proof (cases rule: handle_audio_cases)
    case (early ex w1 pre)
    from handler_frames [OF early(7) early(1)] early(3)
    have "filter is_video_ready (frames_since w w') = []"
      by auto
    with ready show ?thesis
      by contradiction
  next
    case (call t r3 w2 w3)
    let ?pre = "[Status ''transcribing'' ''Transcribing your speech...'', Transcription t]"
    from process_user_input_effect [OF call(4)] call(1)
    have o3: "outbox w3 = outbox w @ (?pre @ frames_since w2 w3)"
      by simp
    have inner_ready: "filter is_video_ready (frames_since w2 w3) \<noteq> []"
    proof (cases r3)
      case (Inr u)
      with call(5) have "w' = w3"
        by auto
      with frames_since_append [OF o3] have "frames_since w w' = ?pre @ frames_since w2 w3"
        by simp
      with ready show ?thesis
        by simp
    next
      case (Inl ex)
      with call(5)
      have "send_json e (ErrorFrame (''Audio processing failed: '' @ str_exn ex)) w3 = (r, w')"
        by auto
      from handler_frames [OF this o3] ready show ?thesis
        by auto
    qed
    from process_user_input_video_ready [OF call(4) inner_ready]
    obtain reply url where r3: "r3 = Inr ()" and inner: "frames_since w2 w3 =
           [Status ''thinking'' ''Generating response...'', Response reply,
            Status ''synthesizing'' ''Synthesizing speech...'',
            Status ''generating_video'' ''Generating avatar video...'',
            VideoReady url ''Avatar video ready!'']"
      by blast
    from r3 call(5) have "w' = w3"
      by auto
    with frames_since_append [OF o3] have "frames_since w w' = ?pre @ frames_since w2 w3"
      by simp
    with inner Bytes show ?thesis
      by simp
  qed
next
  case (BadText m)
  with turn show ?thesis by simp
next
  case Neither
  with turn show ?thesis by simp
qed

text \<open>
  A turn in which every frame is taken and every stage answers runs to the end, and
  these are its frames: first for \<^verbatim>\<open>process_user_input\<close>, then for \<^verbatim>\<open>handle_audio\<close>.
\<close>

lemma process_user_input_success:
  assumes sends: "\<forall>n. send_error e n = None"
    and reg: "active_sessions w sid = Some s"
    and services: "llm_service w = Some ()" "tts_service w = Some ()" "avatar_service w = Some svc"
    and ready: "is_initialized svc \<or> pipeline_initialize e = None"
    and chat: "chat_completions_create e
                 (\<lparr>role = ''system'', content = system_prompt\<rparr> # conversation_history s
                    @ [\<lparr>role = ''user'', content = user_text\<rparr>]) = Inr reply"
    and speech: "speech_create e reply = Inr audio"
    and render: "pipeline_generate e (default_avatar_prompt (settings e))
                   (default_avatar_image (settings e)) (temp_file_name e) 1 420 = Inr video"
  shows "fst (process_user_input e sid user_text w) = Inr () \<and>
         frames_since w (snd (process_user_input e sid user_text w)) =
           [Status ''thinking'' ''Generating response...'', Response reply,
            Status ''synthesizing'' ''Synthesizing speech...'',
            Status ''generating_video'' ''Generating avatar video...'',
            VideoReady
              (''/video/'' @ path_name (''output/interactive/avatar_'' @ timestamp e @ ''.mp4''))
              ''Avatar video ready!'']"
  using assms
  unfolding pui_defs frames_since_def action_defs step_defs or_default_def
  by (auto simp: Let_def)

lemma handle_audio_success:
  assumes sends: "\<forall>n. send_error e n = None"
    and reg: "active_sessions w sid = Some s"
    and services: "stt_service w = Some ()" "llm_service w = Some ()" "tts_service w = Some ()"
      "avatar_service w = Some svc"
    and ready: "is_initialized svc \<or> pipeline_initialize e = None"
    and transcript: "transcriptions_create e audio_data = Inr user_text"
    and chat: "chat_completions_create e
                 (\<lparr>role = ''system'', content = system_prompt\<rparr> # conversation_history s
                    @ [\<lparr>role = ''user'', content = user_text\<rparr>]) = Inr reply"
    and speech: "speech_create e reply = Inr audio"
    and render: "pipeline_generate e (default_avatar_prompt (settings e))
                   (default_avatar_image (settings e)) (temp_file_name e) 1 420 = Inr video"
  shows "fst (handle_audio e sid audio_data w) = Inr () \<and>
         frames_since w (snd (handle_audio e sid audio_data w)) =
           [Status ''transcribing'' ''Transcribing your speech...'', Transcription user_text,
            Status ''thinking'' ''Generating response...'', Response reply,
            Status ''synthesizing'' ''Synthesizing speech...'',
            Status ''generating_video'' ''Generating avatar video...'',
            VideoReady
              (''/video/'' @ path_name (''output/interactive/avatar_'' @ timestamp e @ ''.mp4''))
              ''Avatar video ready!'']"
proof -
  let ?w2 = "w\<lparr>outbox := outbox w @ [Status ''transcribing'' ''Transcribing your speech...'',
                                          Transcription user_text],
                send_attempts := Suc (Suc (send_attempts w))\<rparr>"
  let ?inner = "process_user_input e sid user_text ?w2"
  from sends services(1) transcript
  have unfold: "handle_audio e sid audio_data w =
          (case fst ?inner of
             Inl ex \<Rightarrow>
               send_json e (ErrorFrame (''Audio processing failed: '' @ str_exn ex)) (snd ?inner)
           | Inr u \<Rightarrow> (Inr u, snd ?inner))"
    by (simp add: handle_audio_def action_defs send_json_def the_service_def transcribe_def
          split: sum.split prod.split)
  have inner: "fst ?inner = Inr () \<and>
         frames_since ?w2 (snd ?inner) =
           [Status ''thinking'' ''Generating response...'', Response reply,
            Status ''synthesizing'' ''Synthesizing speech...'',
            Status ''generating_video'' ''Generating avatar video...'',
            VideoReady
              (''/video/'' @ path_name (''output/interactive/avatar_'' @ timestamp e @ ''.mp4''))
              ''Avatar video ready!'']"
    using sends reg services(2-4) ready chat speech render
    by (intro process_user_input_success [where s = s and svc = svc and audio = audio
          and video = video]) simp_all
  have "?inner = (fst ?inner, snd ?inner)"
    by simp
  from process_user_input_effect [OF this]
  have "outbox (snd ?inner) = outbox w @
          ([Status ''transcribing'' ''Transcribing your speech...'', Transcription user_text]
             @ frames_since ?w2 (snd ?inner))"
    by simp
  from frames_since_append [OF this] inner unfold show ?thesis
    by simp
qed

lemma dispatch_text_success:
  assumes "\<forall>n. send_error e n = None" and "active_sessions w sid = Some s"
    and "llm_service w = Some ()" and "tts_service w = Some ()"
    and "avatar_service w = Some svc"
    and "is_initialized svc \<or> pipeline_initialize e = None"
    and "chat_completions_create e
           (\<lparr>role = ''system'', content = system_prompt\<rparr> # conversation_history s
              @ [\<lparr>role = ''user'', content = user_text\<rparr>]) = Inr reply"
    and "speech_create e reply = Inr audio"
    and "pipeline_generate e (default_avatar_prompt (settings e))
           (default_avatar_image (settings e)) (temp_file_name e) 1 420 = Inr video"
    and message: "data ''type'' = Some ''text_input''"
      "user_text = (case data ''text'' of None \<Rightarrow> [] | Some t \<Rightarrow> t)"
  shows "fst (dispatch e sid (JsonText data) w) = Inr () \<and>
         frames_since w (snd (dispatch e sid (JsonText data) w)) =
           [Status ''thinking'' ''Generating response...'', Response reply,
            Status ''synthesizing'' ''Synthesizing speech...'',
            Status ''generating_video'' ''Generating avatar video...'',
            VideoReady
              (''/video/'' @ path_name (''output/interactive/avatar_'' @ timestamp e @ ''.mp4''))
              ''Avatar video ready!'']"
proof -
  from message
  have "dispatch e sid (JsonText data) w = process_user_input e sid user_text w"
    by (simp add: dispatch_def handle_message_def)
  with process_user_input_success [OF assms(1-9)] show ?thesis
    by simp
qed

lemma dispatch_audio_success:
  assumes "\<forall>n. send_error e n = None" and "active_sessions w sid = Some s"
    and "llm_service w = Some ()" and "tts_service w = Some ()"
    and "avatar_service w = Some svc"
    and "is_initialized svc \<or> pipeline_initialize e = None"
    and "chat_completions_create e
           (\<lparr>role = ''system'', content = system_prompt\<rparr> # conversation_history s
              @ [\<lparr>role = ''user'', content = user_text\<rparr>]) = Inr reply"
    and "speech_create e reply = Inr audio"
    and "pipeline_generate e (default_avatar_prompt (settings e))
           (default_avatar_image (settings e)) (temp_file_name e) 1 420 = Inr video"
    and "stt_service w = Some ()" and "transcriptions_create e audio_data = Inr user_text"
  shows "fst (dispatch e sid (Bytes audio_data) w) = Inr () \<and>
         frames_since w (snd (dispatch e sid (Bytes audio_data) w)) =
           [Status ''transcribing'' ''Transcribing your speech...'', Transcription user_text,
            Status ''thinking'' ''Generating response...'', Response reply,
            Status ''synthesizing'' ''Synthesizing speech...'',
            Status ''generating_video'' ''Generating avatar video...'',
            VideoReady
              (''/video/'' @ path_name (''output/interactive/avatar_'' @ timestamp e @ ''.mp4''))
              ''Avatar video ready!'']"
proof -
  have "dispatch e sid (Bytes audio_data) w = handle_audio e sid audio_data w"
    by (simp add: dispatch_def)
  with handle_audio_success [OF assms(1,2,10,3,4,5,6,11,7,8,9)] show ?thesis
    by simp
qed

text \<open>
  C4. Frame order of a successful turn. First: a turn (binary audio, or a \<^verbatim>\<open>text_input\<close>
  message) in which the client receives \<^verbatim>\<open>video_ready\<close> has sent exactly these frames, in
  this order: for audio, status \<^verbatim>\<open>transcribing\<close> and the transcription; then, for both
  kinds of turn, status \<^verbatim>\<open>thinking\<close>, the response, status \<^verbatim>\<open>synthesizing\<close>, status
  \<^verbatim>\<open>generating_video\<close>, and \<^verbatim>\<open>video_ready\<close>. Second: such turns are the ones in which
  nothing fails. When the connection takes every frame, the session is registered, the
  services are constructed (the avatar pipeline initialized, or its initialization
  succeeding) and the chat completion, the speech synthesis and the video pipeline
  answer, a \<^verbatim>\<open>text_input\<close> message is handled without an exception and sends precisely
  the five frames, with the reply and the address of the video in them; and when the
  speech-to-text service is constructed and answers too, binary audio sends precisely the
  seven frames, with the transcript in the second.
\<close>

theorem successful_turn_frame_order:
  "(dispatch e sid msg w = (r, w') \<and> is_turn msg \<and>
    filter is_video_ready (frames_since w w') \<noteq> [] \<longrightarrow>
      (\<exists>transcript reply url.
         frames_since w w' =
           (case msg of
              Bytes _ \<Rightarrow> [Status ''transcribing'' ''Transcribing your speech...'',
                          Transcription transcript]
            | _ \<Rightarrow> [])
           @ [Status ''thinking'' ''Generating response...'', Response reply,
              Status ''synthesizing'' ''Synthesizing speech...'',
              Status ''generating_video'' ''Generating avatar video...'',
              VideoReady url ''Avatar video ready!''])) \<and>
   ((\<forall>n. send_error e n = None) \<and> active_sessions w sid = Some s \<and>
    llm_service w = Some () \<and> tts_service w = Some () \<and> avatar_service w = Some svc \<and>
    (is_initialized svc \<or> pipeline_initialize e = None) \<and>
    chat_completions_create e
      (\<lparr>role = ''system'', content = system_prompt\<rparr> # conversation_history s
         @ [\<lparr>role = ''user'', content = user_text\<rparr>]) = Inr reply \<and>
    speech_create e reply = Inr audio \<and>
    pipeline_generate e (default_avatar_prompt (settings e))
      (default_avatar_image (settings e)) (temp_file_name e) 1 420 = Inr video \<longrightarrow>
      (data ''type'' = Some ''text_input'' \<and>
       user_text = (case data ''text'' of None \<Rightarrow> [] | Some t \<Rightarrow> t) \<longrightarrow>
         fst (dispatch e sid (JsonText data) w) = Inr () \<and>
         frames_since w (snd (dispatch e sid (JsonText data) w)) =
           [Status ''thinking'' ''Generating response...'', Response reply,
            Status ''synthesizing'' ''Synthesizing speech...'',
            Status ''generating_video'' ''Generating avatar video...'',
            VideoReady
              (''/video/'' @ path_name (''output/interactive/avatar_'' @ timestamp e @ ''.mp4''))
              ''Avatar video ready!'']) \<and>
      (stt_service w = Some () \<and> transcriptions_create e audio_data = Inr user_text \<longrightarrow>
         fst (dispatch e sid (Bytes audio_data) w) = Inr () \<and>
         frames_since w (snd (dispatch e sid (Bytes audio_data) w)) =
           [Status ''transcribing'' ''Transcribing your speech...'', Transcription user_text,
            Status ''thinking'' ''Generating response...'', Response reply,
            Status ''synthesizing'' ''Synthesizing speech...'',
            Status ''generating_video'' ''Generating avatar video...'',
            VideoReady
              (''/video/'' @ path_name (''output/interactive/avatar_'' @ timestamp e @ ''.mp4''))
              ''Avatar video ready!'']))"
proof (intro conjI impI; (elim conjE)?)
  show "\<exists>transcript reply url.
         frames_since w w' =
           (case msg of
              Bytes _ \<Rightarrow> [Status ''transcribing'' ''Transcribing your speech...'',
                          Transcription transcript]
            | _ \<Rightarrow> [])
           @ [Status ''thinking'' ''Generating response...'', Response reply,
              Status ''synthesizing'' ''Synthesizing speech...'',
              Status ''generating_video'' ''Generating avatar video...'',
              VideoReady url ''Avatar video ready!'']"
    if "dispatch e sid msg w = (r, w')" and "is_turn msg"
      and "filter is_video_ready (frames_since w w') \<noteq> []"
    using that by (rule video_ready_frame_order)
qed (rule dispatch_text_success [THEN conjunct1] dispatch_text_success [THEN conjunct2]
          dispatch_audio_success [THEN conjunct1] dispatch_audio_success [THEN conjunct2];
     assumption)+

theorem successful_turn_frame_order_witness:
  "fst (dispatch demo_env ''session_1''
          (JsonText [''type'' \<mapsto> ''text_input'', ''text'' \<mapsto> ''hi'']) demo_world) = Inr () \<and>
   frames_since demo_world
     (snd (dispatch demo_env ''session_1''
             (JsonText [''type'' \<mapsto> ''text_input'', ''text'' \<mapsto> ''hi'']) demo_world)) =
     [Status ''thinking'' ''Generating response...'', Response ''Hi! How can I help?'',
      Status ''synthesizing'' ''Synthesizing speech...'',
      Status ''generating_video'' ''Generating avatar video...'',
      VideoReady ''/video/avatar_20240101_120000.mp4'' ''Avatar video ready!''] \<and>
   fst (dispatch demo_env ''session_1'' (Bytes ''pcm'') demo_world) = Inr () \<and>
   frames_since demo_world (snd (dispatch demo_env ''session_1'' (Bytes ''pcm'') demo_world)) =
     [Status ''transcribing'' ''Transcribing your speech...'', Transcription ''hello'',
      Status ''thinking'' ''Generating response...'', Response ''Hi! How can I help?'',
      Status ''synthesizing'' ''Synthesizing speech...'',
      Status ''generating_video'' ''Generating avatar video...'',
      VideoReady ''/video/avatar_20240101_120000.mp4'' ''Avatar video ready!''] \<and>
   is_turn (JsonText [''type'' \<mapsto> ''text_input'', ''text'' \<mapsto> ''hi'']) \<and>
   filter is_video_ready
     (frames_since demo_world
        (snd (dispatch demo_env ''session_1''
                (JsonText [''type'' \<mapsto> ''text_input'', ''text'' \<mapsto> ''hi'']) demo_world)))
     = [VideoReady ''/video/avatar_20240101_120000.mp4'' ''Avatar video ready!'']"
proof -
  let ?data = "[''type'' \<mapsto> ''text_input'', ''text'' \<mapsto> ''hi'']"
  let ?text_run = "dispatch demo_env ''session_1'' (JsonText ?data) demo_world"
  let ?audio_run = "dispatch demo_env ''session_1'' (Bytes ''pcm'') demo_world"
  let ?url = "''/video/'' @ path_name (''output/interactive/avatar_'' @ timestamp demo_env @ ''.mp4'')"
  have stages: "(\<forall>n. send_error demo_env n = None) \<and>
      active_sessions demo_world ''session_1'' = Some \<lparr>conversation_history = []\<rparr> \<and>
      llm_service demo_world = Some () \<and> tts_service demo_world = Some () \<and>
      avatar_service demo_world = Some \<lparr>is_initialized = True\<rparr> \<and>
      (is_initialized \<lparr>is_initialized = True\<rparr> \<or> pipeline_initialize demo_env = None) \<and>
      speech_create demo_env ''Hi! How can I help?'' = Inr ''mp3 bytes'' \<and>
      pipeline_generate demo_env (default_avatar_prompt (settings demo_env))
        (default_avatar_image (settings demo_env)) (temp_file_name demo_env) 1 420
        = Inr ''mp4 bytes'' \<and>
      stt_service demo_world = Some () \<and>
      transcriptions_create demo_env ''pcm'' = Inr ''hello''"
    and chat: "\<And>ms. chat_completions_create demo_env ms = Inr ''Hi! How can I help?''"
    by (simp_all add: demo_defs)
  have url: "?url = ''/video/avatar_20240101_120000.mp4''"
    by (simp add: demo_defs path_name_def)
  have message: "?data ''type'' = Some ''text_input''"
      "''hi'' = (case ?data ''text'' of None \<Rightarrow> [] | Some t \<Rightarrow> t)"
    by simp_all
  have turn: "is_turn (JsonText ?data)"
    by simp
  note text_turn = successful_turn_frame_order
    [where e = demo_env and sid = "''session_1''" and w = demo_world
       and msg = "JsonText ?data" and r = "fst ?text_run" and w' = "snd ?text_run"
       and s = "\<lparr>conversation_history = []\<rparr>" and svc = "\<lparr>is_initialized = True\<rparr>"
       and user_text = "''hi''" and reply = "''Hi! How can I help?''"
       and audio = "''mp3 bytes''" and video = "''mp4 bytes''" and data = ?data
       and audio_data = "''pcm''"]
  note audio_turn = successful_turn_frame_order
    [where e = demo_env and sid = "''session_1''" and w = demo_world
       and msg = "Bytes ''pcm''" and r = "fst ?audio_run" and w' = "snd ?audio_run"
       and s = "\<lparr>conversation_history = []\<rparr>" and svc = "\<lparr>is_initialized = True\<rparr>"
       and user_text = "''hello''" and reply = "''Hi! How can I help?''"
       and audio = "''mp3 bytes''" and video = "''mp4 bytes''" and data = ?data
       and audio_data = "''pcm''"]
  from text_turn stages chat message
  have text_frames: "fst ?text_run = Inr ()"
    "frames_since demo_world (snd ?text_run) =
       [Status ''thinking'' ''Generating response...'', Response ''Hi! How can I help?'',
        Status ''synthesizing'' ''Synthesizing speech...'',
        Status ''generating_video'' ''Generating avatar video...'',
        VideoReady ?url ''Avatar video ready!'']"
    by simp_all
  from audio_turn stages chat
  have audio_frames: "fst ?audio_run = Inr ()"
    "frames_since demo_world (snd ?audio_run) =
       [Status ''transcribing'' ''Transcribing your speech...'', Transcription ''hello'',
        Status ''thinking'' ''Generating response...'', Response ''Hi! How can I help?'',
        Status ''synthesizing'' ''Synthesizing speech...'',
        Status ''generating_video'' ''Generating avatar video...'',
        VideoReady ?url ''Avatar video ready!'']"
    by simp_all
  from text_frames audio_frames turn url show ?thesis
    by simp
qed

text \<open>
  C5. One error frame, and the connection stays. On a connection that takes every frame,
  a turn that does not end in \<^verbatim>\<open>video_ready\<close> (by \<open>backend_failure_prevents_video_ready\<close>
  and the first case of \<open>handle_audio_cases\<close> this is every turn in which the
  speech-to-text, chat, speech or video backend raises) has sent exactly one error frame,
  as its last frame, with the
  message \<^verbatim>\<open>Processing failed: ...\<close> or \<^verbatim>\<open>Audio processing failed: ...\<close>; the handler
  returns without an exception, so the loop of the endpoint goes on to the next inbound
  message, and the registry has the same sessions as before.
\<close>

theorem failed_turn_one_error_frame:
  assumes run: "dispatch e sid msg w = (r, w')" and turn: "is_turn msg"
    and sends: "\<forall>n. send_error e n = None"
    and failed: "filter is_video_ready (frames_since w w') = []"
  shows "r = Inr () \<and>
         (\<exists>pre d.
            (frames_since w w' = pre @ [ErrorFrame (''Processing failed: '' @ d)] \<or>
             frames_since w w' = pre @ [ErrorFrame (''Audio processing failed: '' @ d)]) \<and>
            filter is_error pre = []) \<and>
         length (filter is_error (frames_since w w')) = 1 \<and>
         (\<forall>k. (active_sessions w' k = None) = (active_sessions w k = None)) \<and>
         receive_loop sid ((e, msg) # rest) w = receive_loop sid rest w'"
proof -
  have main: "r = Inr () \<and>
         (\<forall>k. (active_sessions w' k = None) = (active_sessions w k = None)) \<and>
         (\<exists>pre d.
            (frames_since w w' = pre @ [ErrorFrame (''Processing failed: '' @ d)] \<or>
             frames_since w w' = pre @ [ErrorFrame (''Audio processing failed: '' @ d)]) \<and>
            filter is_error pre = [])"
  proof (cases msg)
    case (JsonText data)
    with run turn obtain user_text where pui: "process_user_input e sid user_text w = (r, w')"
      by (auto simp: dispatch_def handle_message_def)
    from process_user_input_failure [OF pui sends failed] process_user_input_effect [OF pui]
    show ?thesis by blast
  next
    case (Bytes a)
    with run have "handle_audio e sid a w = (r, w')"
      by (simp add: dispatch_def)
    then show ?thesis
    proof (cases rule: handle_audio_cases)
      case (early ex w1 pre)
      from send_json_cases [OF early(7)] sends early(1)
      have "r = Inr ()" and "active_sessions w' = active_sessions w1"
        and "outbox w' =
               outbox w @ (pre @ [ErrorFrame (''Audio processing failed: '' @ str_exn ex)])"
        by auto
      with frames_since_append [of w' w] early(2,5) show ?thesis
        by auto
    next
      case (call t r3 w2 w3)
      note inner = process_user_input_effect [OF call(4)]
      let ?pre = "[Status ''transcribing'' ''Transcribing your speech...'', Transcription t]"
      from inner call(1) have o3: "outbox w3 = outbox w @ (?pre @ frames_since w2 w3)"
        by simp
      have "r3 = Inr ()"
      proof (cases "filter is_video_ready (frames_since w2 w3) = []")
        case True
        from process_user_input_failure [OF call(4) sends True] show ?thesis by simp
      next
        case False
        from process_user_input_video_ready [OF call(4) False] show ?thesis by simp
      qed
      with call(5) have res: "r = Inr ()" "w' = w3"
        by auto
      with frames_since_append [OF o3] have fs: "frames_since w w' = ?pre @ frames_since w2 w3"
        by simp
      with failed have "filter is_video_ready (frames_since w2 w3) = []"
        by simp
      from process_user_input_failure [OF call(4) sends this]
      obtain pre d where "frames_since w2 w3 = pre @ [ErrorFrame (''Processing failed: '' @ d)]"
        and "filter is_error pre = []"
        by blast
      with fs
      have "frames_since w w' = (?pre @ pre) @ [ErrorFrame (''Processing failed: '' @ d)]"
        and "filter is_error (?pre @ pre) = []"
        by simp_all
      then have "\<exists>pre d.
            (frames_since w w' = pre @ [ErrorFrame (''Processing failed: '' @ d)] \<or>
             frames_since w w' = pre @ [ErrorFrame (''Audio processing failed: '' @ d)]) \<and>
            filter is_error pre = []"
        by blast
      moreover from inner call(2) res(2)
      have "\<forall>k. (active_sessions w' k = None) = (active_sessions w k = None)"
        by simp
      ultimately show ?thesis
        using res(1) by blast
    qed
  next
    case (BadText m)
    with turn show ?thesis by simp
  next
    case Neither
    with turn show ?thesis by simp
  qed
  then have "length (filter is_error (frames_since w w')) = 1"
    by auto
  moreover from main run have "receive_loop sid ((e, msg) # rest) w = receive_loop sid rest w'"
    by (simp add: bind_def)
  ultimately show ?thesis
    using main by blast
qed

theorem failed_turn_one_error_frame_witness:
  "is_turn (Bytes ''pcm'') \<and>
   (\<forall>n. send_error render_fails n = None) \<and>
   filter is_video_ready
     (frames_since demo_world (snd (dispatch render_fails ''session_1'' (Bytes ''pcm'') demo_world)))
     = [] \<and>
   fst (dispatch render_fails ''session_1'' (Bytes ''pcm'') demo_world) = Inr () \<and>
   filter is_error
     (frames_since demo_world (snd (dispatch render_fails ''session_1'' (Bytes ''pcm'') demo_world)))
     = [ErrorFrame ''Processing failed: CUDA out of memory''] \<and>
   length (filter is_error
     (frames_since demo_world (snd (dispatch render_fails ''session_1'' (Bytes ''pcm'') demo_world))))
     = 1 \<and>
   (active_sessions (snd (dispatch render_fails ''session_1'' (Bytes ''pcm'') demo_world))
      ''session_1'' = None) = False"
proof -
  let ?run = "dispatch render_fails ''session_1'' (Bytes ''pcm'') demo_world"
  have run: "?run = (fst ?run, snd ?run)"
    by simp
  have turn: "is_turn (Bytes ''pcm'')"
    by simp
  have sends: "\<forall>n. send_error render_fails n = None"
    by (simp add: demo_defs)
  have frames: "frames_since demo_world (snd ?run) =
     [Status ''transcribing'' ''Transcribing your speech...'', Transcription ''hello'',
      Status ''thinking'' ''Generating response...'', Response ''Hi! How can I help?'',
      Status ''synthesizing'' ''Synthesizing speech...'',
      Status ''generating_video'' ''Generating avatar video...'',
      ErrorFrame ''Processing failed: CUDA out of memory'']"
    by (simp add: eval_defs)
  then have failed: "filter is_video_ready (frames_since demo_world (snd ?run)) = []"
    by simp
  have reg: "active_sessions demo_world ''session_1'' \<noteq> None"
    by (simp add: demo_world_def)
  from failed_turn_one_error_frame [OF run turn sends failed, of "[]"] reg
  have "fst ?run = Inr ()"
    and "length (filter is_error (frames_since demo_world (snd ?run))) = 1"
    and "(active_sessions (snd ?run) ''session_1'' = None) = False"
    by simp_all
  with turn sends failed frames show ?thesis
    by simp
qed

subsection \<open>The temporary audio file\<close>

text \<open>
  C6. The temporary audio file of a turn whose rendering fails. Here the turn reaches
  the rendering stage (status \<^verbatim>\<open>generating_video\<close> is sent), the video pipeline raises,
  and after the turn the file that \<^verbatim>\<open>synthesize\<close> created is still there with the
  synthesized audio; it was not there before the turn. In the same world, the turn in
  which the pipeline answers leaves no such file.
\<close>

theorem temp_audio_kept_when_render_fails:
  "files demo_world (temp_file_name render_fails) = None \<and>
   frames_since demo_world (snd (process_user_input render_fails ''session_1'' ''hello'' demo_world)) =
     [Status ''thinking'' ''Generating response...'', Response ''Hi! How can I help?'',
      Status ''synthesizing'' ''Synthesizing speech...'',
      Status ''generating_video'' ''Generating avatar video...'',
      ErrorFrame ''Processing failed: CUDA out of memory''] \<and>
   files (snd (process_user_input render_fails ''session_1'' ''hello'' demo_world))
     (temp_file_name render_fails) = Some (File ''mp3 bytes'') \<and>
   files (snd (process_user_input demo_env ''session_1'' ''hello'' demo_world))
     (temp_file_name demo_env) = None"
  by (simp add: eval_defs)

end
